theory Spec2Isabelle
  imports Complex_Main
begin

section \<open>The OpenPrescribing individual product extractor (analyse-to-api.py)\<close>

text \<open>
  The program is one Python file: it decodes the fragment of an OpenPrescribing analyse
  URL, counts the API calls the request needs, and, when the count is within the limit,
  fetches a name per product and the spending per (organisation, product), merges the
  replies into one table, moves three columns to the end and shows the table.

  Python strings are modelled as \<^typ>\<open>string\<close>; \<open>len\<close> is \<^const>\<open>length\<close>, which
  agrees with Python on ASCII text (BNF codes and organisation codes are ASCII).
  Python integers that count things are \<^typ>\<open>nat\<close>.
\<close>

subsection \<open>Constants and the call budget\<close>

definition API_CALL_LIMIT :: nat where
  "API_CALL_LIMIT = 100"

text \<open>\<^verbatim>\<open>return len(num_ids) + (len(org_ids) * len(num_ids))\<close>\<close>

definition calculate_api_calls :: "string list \<Rightarrow> string list \<Rightarrow> nat" where
  "calculate_api_calls org_ids num_ids = length num_ids + (length org_ids * length num_ids)"

subsection \<open>The code-type check\<close>

text \<open>
  The loop of \<open>check_for_mixed_code_types\<close>, with its two flags as arguments:
  \<^verbatim>\<open>
  for code in codes:
      if len(code) == 15:  has_vmp = True
      elif len(code) < 15: has_shorter_code = True
  \<close>
\<close>

fun scan_codes :: "string list \<Rightarrow> bool \<Rightarrow> bool \<Rightarrow> bool \<times> bool" where
  "scan_codes [] has_vmp has_shorter_code = (has_vmp, has_shorter_code)"
| "scan_codes (code # codes) has_vmp has_shorter_code =
     (if length code = 15 then scan_codes codes True has_shorter_code
      else if length code < 15 then scan_codes codes has_vmp True
      else scan_codes codes has_vmp has_shorter_code)"

definition check_for_mixed_code_types :: "string list \<Rightarrow> bool" where
  "check_for_mixed_code_types codes =
     (case scan_codes codes False False of
        (has_vmp, has_shorter_code) \<Rightarrow> if has_vmp \<and> has_shorter_code then True else False)"

subsection \<open>Python values and faults\<close>

text \<open>
  The faults the program does not catch: each ends the run as an unhandled exception.
  \<open>RequestFailed\<close> stands for whatever \<open>requests.get\<close> or \<open>response.json()\<close> raises.
\<close>

datatype py_error =
    IndexError | KeyError | TypeError | AttributeError | ValueError | MergeError | RequestFailed

text \<open>
  What \<open>response.json()\<close> returns. An object keeps its keys in the order of the reply; its
  keys are distinct, as those of a Python \<open>dict\<close> are. Non-finite numbers are left out.
\<close>

datatype json =
    JNull
  | JBool bool
  | JInt int
  | JFloat rat
  | JStr string
  | JArr "json list"
  | JObj "(string \<times> json) list"

text \<open>Python's truth value of such a value, as \<^verbatim>\<open>if data:\<close> tests it.\<close>

fun truthy :: "json \<Rightarrow> bool" where
  "truthy JNull = False"
| "truthy (JBool b) = b"
| "truthy (JInt i) = (i \<noteq> 0)"
| "truthy (JFloat q) = (q \<noteq> 0)"
| "truthy (JStr s) = (s \<noteq> [])"
| "truthy (JArr xs) = (xs \<noteq> [])"
| "truthy (JObj kvs) = (kvs \<noteq> [])"

subsection \<open>Decoding the URL\<close>

text \<open>
  \<open>s.split(sep, 1)\<close>: the text before and after the first separator, when there is one.
\<close>

definition split_first :: "char \<Rightarrow> string \<Rightarrow> (string \<times> string) option" where
  "split_first sep s =
     (if sep \<in> set s
      then Some (takeWhile (\<lambda>c. c \<noteq> sep) s, tl (dropWhile (\<lambda>c. c \<noteq> sep) s))
      else None)"

text \<open>\<open>s.split(sep)\<close>: always at least one piece; \<^verbatim>\<open>''.split(',') == ['']\<close>.\<close>

fun split_on :: "char \<Rightarrow> string \<Rightarrow> string list" where
  "split_on sep [] = [[]]"
| "split_on sep (c # cs) =
     (if c = sep then [] # split_on sep cs
      else (case split_on sep cs of
              [] \<Rightarrow> [[c]]
            | piece # pieces \<Rightarrow> (c # piece) # pieces))"

text \<open>
  \<open>urlparse(url).fragment\<close>. The library strips leading C0 control characters and
  spaces, removes tab, carriage return and line feed, and, the scheme and the network
  location holding no \<open>#\<close>, takes as fragment everything after the first \<open>#\<close>. The
  \<open>ValueError\<close> it raises on a malformed bracketed network location (as in
  \<^verbatim>\<open>http://[abc#...\<close>) is not modelled: the model covers the URLs that \<open>urlparse\<close>
  accepts, and on the others the program ends with that fault before it shows anything.
\<close>

definition is_c0_or_space :: "char \<Rightarrow> bool" where
  "is_c0_or_space c = ((of_char c :: nat) \<le> 32)"

definition is_unsafe_url_byte :: "char \<Rightarrow> bool" where
  "is_unsafe_url_byte c = ((of_char c :: nat) \<in> {9, 10, 13})"

definition url_fragment :: "string \<Rightarrow> string" where
  "url_fragment url =
     (case split_first CHR ''#''
             (filter (\<lambda>c. \<not> is_unsafe_url_byte c) (dropWhile is_c0_or_space url)) of
        None \<Rightarrow> []
      | Some (_, fragment) \<Rightarrow> fragment)"

text \<open>
  \<open>urllib.parse.unquote\<close> on bytes: \<open>%XX\<close> with two hexadecimal digits becomes the byte
  \<open>XX\<close>, any other \<open>%\<close> stays. Python then decodes the bytes as UTF-8 and replaces
  invalid sequences, while a \<^typ>\<open>string\<close> here is the byte sequence itself: the model
  agrees with Python on escapes of ASCII characters, and an escape of another byte gives
  a different string, of a different length, in Python.
\<close>

definition hex_digit :: "char \<Rightarrow> nat option" where
  "hex_digit c =
     (let n = (of_char c :: nat) in
      if 48 \<le> n \<and> n \<le> 57 then Some (n - 48)
      else if 65 \<le> n \<and> n \<le> 70 then Some (n - 55)
      else if 97 \<le> n \<and> n \<le> 102 then Some (n - 87)
      else None)"

fun unquote :: "string \<Rightarrow> string" where
  "unquote (c # h1 # h2 # cs) =
     (if c = CHR ''%'' then
        (case (hex_digit h1, hex_digit h2) of
           (Some a, Some b) \<Rightarrow> char_of (16 * a + b) # unquote cs
         | _ \<Rightarrow> c # unquote (h1 # h2 # cs))
      else c # unquote (h1 # h2 # cs))"
| "unquote cs = cs"

definition plus_to_space :: "string \<Rightarrow> string" where
  "plus_to_space s = map (\<lambda>c. if c = CHR ''+'' then CHR '' '' else c) s"

text \<open>
  \<open>parse_qsl\<close> with its defaults (\<open>keep_blank_values=False\<close>, \<open>strict_parsing=False\<close>,
  separator \<open>&\<close>): an empty field, a field without \<open>=\<close> and a field with an empty value
  are skipped; name and value are unquoted after \<open>+\<close> has become a space.
\<close>

fun parse_qsl_fields :: "string list \<Rightarrow> (string \<times> string) list" where
  "parse_qsl_fields [] = []"
| "parse_qsl_fields (name_value # fields) =
     (if name_value = [] then parse_qsl_fields fields
      else (case split_first CHR ''='' name_value of
              None \<Rightarrow> parse_qsl_fields fields
            | Some (n, v) \<Rightarrow>
                if v \<noteq> []
                then (unquote (plus_to_space n), unquote (plus_to_space v)) # parse_qsl_fields fields
                else parse_qsl_fields fields))"

definition parse_qsl :: "string \<Rightarrow> (string \<times> string) list" where
  "parse_qsl qs = parse_qsl_fields (split_on CHR ''&'' qs)"

text \<open>
  \<open>parse_qs\<close>: the dictionary from each name to the list of its values, in order.
  \<^verbatim>\<open>
  for name, value in pairs:
      if name in parsed_result: parsed_result[name].append(value)
      else: parsed_result[name] = [value]
  \<close>
\<close>

type_synonym query_components = "string \<rightharpoonup> string list"

fun parse_qs_pairs :: "(string \<times> string) list \<Rightarrow> query_components \<Rightarrow> query_components" where
  "parse_qs_pairs [] parsed_result = parsed_result"
| "parse_qs_pairs ((name, val) # pairs) parsed_result =
     parse_qs_pairs pairs
       (case parsed_result name of
          Some vals \<Rightarrow> parsed_result(name \<mapsto> vals @ [val])
        | None \<Rightarrow> parsed_result(name \<mapsto> [val]))"

definition parse_qs :: "string \<Rightarrow> query_components" where
  "parse_qs qs = parse_qs_pairs (parse_qsl qs) Map.empty"

definition parse_url :: "string \<Rightarrow> query_components" where
  "parse_url url = parse_qs (url_fragment url)"

text \<open>
  The three values the button handler reads from the query components:
  \<^verbatim>\<open>
  org = query_components.get('org', [''])[0]
  org_ids = query_components.get('orgIds', [])[0].split(',') if 'orgIds' in query_components else []
  num_ids = query_components.get('numIds', [])[0].split(',') if 'numIds' in query_components else []
  \<close>
  Indexing an empty list with \<open>[0]\<close> raises \<open>IndexError\<close>.
\<close>

definition first_value :: "string list \<Rightarrow> py_error + string" where
  "first_value vals = (case vals of [] \<Rightarrow> Inl IndexError | v # _ \<Rightarrow> Inr v)"

definition read_org :: "query_components \<Rightarrow> py_error + string" where
  "read_org query_components =
     first_value (case query_components ''org'' of None \<Rightarrow> [[]] | Some vals \<Rightarrow> vals)"

definition read_ids :: "string \<Rightarrow> query_components \<Rightarrow> py_error + string list" where
  "read_ids key query_components =
     (case query_components key of
        None \<Rightarrow> Inr []
      | Some vals \<Rightarrow>
          (case first_value vals of
             Inl e \<Rightarrow> Inl e
           | Inr v \<Rightarrow> Inr (split_on CHR '','' v)))"

definition read_selection :: "query_components \<Rightarrow> py_error + (string \<times> string list \<times> string list)" where
  "read_selection query_components =
     (case read_org query_components of
        Inl e \<Rightarrow> Inl e
      | Inr org \<Rightarrow>
          (case read_ids ''orgIds'' query_components of
             Inl e \<Rightarrow> Inl e
           | Inr org_ids \<Rightarrow>
               (case read_ids ''numIds'' query_components of
                  Inl e \<Rightarrow> Inl e
                | Inr num_ids \<Rightarrow> Inr (org, org_ids, num_ids))))"

subsection \<open>Tables\<close>

text \<open>
  A pandas \<open>DataFrame\<close> as far as the program uses one: the column labels in order, and
  the rows, each a list of cells aligned with the labels. A missing cell (pandas' NaN) is
  \<^const>\<open>None\<close>. The row index is left out: the program never reads it. A cell keeps the
  JSON value of the reply; pandas converts the cells of a numeric column (next to a
  missing cell or a null, the integer 2 becomes 2.0 and the null becomes NaN), which the
  model does not follow. Cells that are strings, as the \<open>num_id\<close> tags and an empty name
  are, stay as they are in pandas too.
\<close>

type_synonym record_object = "(string \<times> json) list"

record frame =
  columns :: "string list"
  rows :: "json option list list"

text \<open>Labels are collected in the order of their first appearance.\<close>

fun add_labels :: "string list \<Rightarrow> string list \<Rightarrow> string list" where
  "add_labels seen [] = seen"
| "add_labels seen (l # ls) = add_labels (if l \<in> set seen then seen else seen @ [l]) ls"

text \<open>\<open>pd.DataFrame(data)\<close> for a list of objects: one row per object.\<close>

definition DataFrame :: "record_object list \<Rightarrow> frame" where
  "DataFrame data =
     (let cols = foldl add_labels [] (map (map fst) data)
      in \<lparr>columns = cols, rows = map (\<lambda>obj. map (map_of obj) cols) data\<rparr>)"

text \<open>\<open>df[label] = value\<close> with a scalar: the column is overwritten, or added as the last.\<close>

definition set_column :: "string \<Rightarrow> json \<Rightarrow> frame \<Rightarrow> frame" where
  "set_column label v df =
     (if label \<in> set (columns df)
      then \<lparr>columns = columns df,
            rows = map (\<lambda>r. map2 (\<lambda>l cell. if l = label then Some v else cell) (columns df) r)
                     (rows df)\<rparr>
      else \<lparr>columns = columns df @ [label], rows = map (\<lambda>r. r @ [Some v]) (rows df)\<rparr>)"

definition cell_at :: "frame \<Rightarrow> json option list \<Rightarrow> string \<Rightarrow> json option" where
  "cell_at df r label =
     (case map_of (zip (columns df) r) label of None \<Rightarrow> None | Some cell \<Rightarrow> cell)"

text \<open>
  \<open>pd.concat(dataframes, ignore_index=True)\<close>: the union of the columns, the rows one
  frame after the other. On an empty list pandas raises \<open>ValueError\<close>.
\<close>

definition pd_concat :: "frame list \<Rightarrow> py_error + frame" where
  "pd_concat dfs =
     (if dfs = [] then Inl ValueError
      else (let cols = foldl add_labels [] (map columns dfs)
            in Inr \<lparr>columns = cols,
                     rows = concat (map (\<lambda>df. map (\<lambda>r. map (cell_at df r) cols) (rows df)) dfs)\<rparr>))"

text \<open>
  \<open>left.merge(right, on=key, how='left')\<close> as pandas 2.2 does it: the key column of the
  right frame is dropped; a label that both sides then share gets the suffix \<open>_x\<close> on the
  left and \<open>_y\<close> on the right, and \<open>MergeError\<close> is raised when a suffix produces a
  duplicate label; every left row is kept, once per right row with the same key, or once
  with missing cells when there is none. A key that is not a column is a \<open>KeyError\<close>.
  A left label that equals a suffixed right label (\<open>name_y\<close>) gives a repeated label
  here; later versions of pandas raise \<open>MergeError\<close> for it as well.
\<close>

fun duplicated :: "string list \<Rightarrow> string list \<Rightarrow> bool list" where
  "duplicated seen [] = []"
| "duplicated seen (l # ls) = (l \<in> set seen) # duplicated (l # seen) ls"

definition suffix_duplicates :: "string list \<Rightarrow> string list \<Rightarrow> bool" where
  "suffix_duplicates renamed original =
     ((True, False) \<in> set (zip (duplicated [] renamed) (duplicated [] original)))"

definition merge_left :: "string \<Rightarrow> frame \<Rightarrow> frame \<Rightarrow> py_error + frame" where
  "merge_left key left right =
     (if key \<notin> set (columns left) \<or> key \<notin> set (columns right) then Inl KeyError
      else
        (let rcols = filter (\<lambda>l. l \<noteq> key) (columns right);
             llabels = map (\<lambda>l. if l \<in> set rcols then l @ ''_x'' else l) (columns left);
             rlabels = map (\<lambda>l. if l \<in> set (columns left) then l @ ''_y'' else l) rcols;
             others = (\<lambda>rr. map snd (filter (\<lambda>(l, cell). l \<noteq> key) (zip (columns right) rr)));
             joined = (\<lambda>r.
               (case filter (\<lambda>rr. cell_at right rr key = cell_at left r key) (rows right) of
                  [] \<Rightarrow> [r @ replicate (length rcols) None]
                | matches \<Rightarrow> map (\<lambda>rr. r @ others rr) matches))
         in if suffix_duplicates llabels (columns left) \<or> suffix_duplicates rlabels rcols
            then Inl MergeError
            else Inr \<lparr>columns = llabels @ rlabels, rows = concat (map joined (rows left))\<rparr>))"

text \<open>
  The column reordering of \<open>extract_data\<close>:
  \<^verbatim>\<open>
  for col in ['items', 'quantity', 'actual_cost']:
      if col in cols:
          cols.append(cols.pop(cols.index(col)))
  \<close>
  \<open>cols.index(col)\<close> is the first position of \<open>col\<close>, so the \<open>pop\<close> is \<^const>\<open>remove1\<close>.
\<close>

definition move_to_end :: "string \<Rightarrow> string list \<Rightarrow> string list" where
  "move_to_end col cols = (if col \<in> set cols then remove1 col cols @ [col] else cols)"

definition value_columns :: "string list" where
  "value_columns = [''items'', ''quantity'', ''actual_cost'']"

definition reorder_columns :: "string list \<Rightarrow> string list" where
  "reorder_columns cols = foldl (\<lambda>cols col. move_to_end col cols) cols value_columns"

text \<open>
  \<open>final_df[cols]\<close>: for each label of \<open>cols\<close> in turn, every column of the frame with that
  label; a label the frame does not have is a \<open>KeyError\<close>.
\<close>

definition select_columns :: "string list \<Rightarrow> frame \<Rightarrow> py_error + frame" where
  "select_columns cols df =
     (if set cols \<subseteq> set (columns df)
      then (let positions =
                  concat (map (\<lambda>l. filter (\<lambda>i. columns df ! i = l) [0..<length (columns df)]) cols)
            in Inr \<lparr>columns = map (\<lambda>i. columns df ! i) positions,
                    rows = map (\<lambda>r. map (\<lambda>i. r ! i) positions) (rows df)\<rparr>)
      else Inl KeyError)"

subsection \<open>The network and what the user sees\<close>

text \<open>
  The remote API is a parameter of the model. \<open>name_reply net k url\<close> is what
  \<^verbatim>\<open>requests.get(url).json()\<close> gives when \<open>url\<close> is the \<open>k\<close>-th request of the run (so
  the same URL may be answered differently at different times), or the fault it raises.
  The spending endpoint answers with a sequence of row objects, which is the shape
  \<open>pd.DataFrame\<close> is modelled for.
\<close>

record net =
  name_reply :: "nat \<Rightarrow> string \<Rightarrow> py_error + json"
  spending_reply :: "nat \<Rightarrow> string \<Rightarrow> py_error + record_object list"

text \<open>
  The texts of \<open>st.write\<close>, \<open>st.error\<close> and \<open>st.warning\<close>, by what they say and the values
  formatted into them.
\<close>

datatype message =
    Search_too_complex nat
  | Reduce_number
  | Organisation_type string
  | Selected_organisations "string list"
  | Selected_products "string list"
  | Calls_needed nat
  | Divider
  | Results_heading
  | No_data_returned
  | Denominators_not_supported
  | No_organisation
  | Mixed_code_types

text \<open>
  The effects of a run, in order. \<open>Progress_bar c t\<close> and \<open>Progress_text c t\<close> are the two
  progress updates after call \<open>c\<close> of \<open>t\<close>; the percentage shown is a floating-point
  computation from \<open>c\<close> and \<open>t\<close> and is not modelled. \<open>St_markdown df\<close> is the download link,
  which embeds the CSV text of \<open>df\<close>.
\<close>

datatype event =
    St_write message
  | St_error message
  | St_warning message
  | St_empty
  | St_progress nat
  | Requests_get string
  | Progress_bar nat nat
  | Progress_text nat nat
  | St_dataframe frame
  | St_markdown frame

definition is_request :: "event \<Rightarrow> bool" where
  "is_request e = (case e of Requests_get _ \<Rightarrow> True | _ \<Rightarrow> False)"

definition shows_table :: "event \<Rightarrow> bool" where
  "shows_table e = (case e of St_dataframe _ \<Rightarrow> True | St_markdown _ \<Rightarrow> True | _ \<Rightarrow> False)"

subsection \<open>Fetching\<close>

definition name_url :: "string \<Rightarrow> string" where
  "name_url num_id =
     ''https://openprescribing.net/api/1.0/bnf_code/?exact=true&format=json&q='' @ num_id"

definition spending_url :: "string \<Rightarrow> string \<Rightarrow> string \<Rightarrow> string" where
  "spending_url org org_id num_id =
     ''https://openprescribing.net/api/1.0/spending_by_org/?code='' @ num_id
       @ ''&format=json&org='' @ org_id @ ''&org_type='' @ org"

text \<open>
  \<^verbatim>\<open>
  data = response.json()
  if data: return data[0].get('name', '')
  else:    return ''
  \<close>
  \<open>data[0]\<close> is the first element of a list, a \<open>KeyError\<close> on an object (its keys are
  strings), a one-character string on a string, and a \<open>TypeError\<close> on a number or a
  boolean; \<open>.get\<close> exists on an object only.
\<close>

definition first_name :: "json \<Rightarrow> py_error + json" where
  "first_name data =
     (if truthy data then
        (case data of
           JArr (JObj obj # _) \<Rightarrow>
             Inr (case map_of obj ''name'' of Some v \<Rightarrow> v | None \<Rightarrow> JStr [])
         | JArr _ \<Rightarrow> Inl AttributeError
         | JStr _ \<Rightarrow> Inl AttributeError
         | JObj _ \<Rightarrow> Inl KeyError
         | _ \<Rightarrow> Inl TypeError)
      else Inr (JStr []))"

definition fetch_name_for_num_id ::
  "(string \<Rightarrow> py_error + json) \<Rightarrow> string \<Rightarrow> event list \<times> (py_error + json)" where
  "fetch_name_for_num_id get num_id =
     ([Requests_get (name_url num_id)],
      (case get (name_url num_id) of
         Inl e \<Rightarrow> Inl e
       | Inr data \<Rightarrow> first_name data))"

text \<open>
  The first loop of \<open>extract_data\<close>, with \<open>call_count\<close> and \<open>num_id_names\<close> as arguments.
  A fault ends the loop with the events so far.
\<close>

fun fetch_names ::
  "net \<Rightarrow> nat \<Rightarrow> string list \<Rightarrow> nat \<Rightarrow> record_object list
     \<Rightarrow> event list \<times> (py_error + nat \<times> record_object list)" where
  "fetch_names net total_calls [] call_count num_id_names = ([], Inr (call_count, num_id_names))"
| "fetch_names net total_calls (num_id # num_ids) call_count num_id_names =
     (case fetch_name_for_num_id (name_reply net (call_count + 1)) num_id of
        (es, Inl e) \<Rightarrow> (es, Inl e)
      | (es, Inr name) \<Rightarrow>
          (case fetch_names net total_calls num_ids (call_count + 1)
                  (num_id_names @ [[(''num_id'', JStr num_id), (''name'', name)]]) of
             (es', r) \<Rightarrow>
               (es @ [Progress_bar (call_count + 1) total_calls,
                      Progress_text (call_count + 1) total_calls] @ es', r)))"

text \<open>The inner loop over \<open>num_ids\<close> for one organisation, then the outer loop.\<close>

fun fetch_spending_of ::
  "net \<Rightarrow> string \<Rightarrow> nat \<Rightarrow> string \<Rightarrow> string list \<Rightarrow> nat \<Rightarrow> frame list
     \<Rightarrow> event list \<times> (py_error + nat \<times> frame list)" where
  "fetch_spending_of net org total_calls org_id [] call_count dataframes =
     ([], Inr (call_count, dataframes))"
| "fetch_spending_of net org total_calls org_id (num_id # num_ids) call_count dataframes =
     (case spending_reply net (call_count + 1) (spending_url org org_id num_id) of
        Inl e \<Rightarrow> ([Requests_get (spending_url org org_id num_id)], Inl e)
      | Inr data \<Rightarrow>
          (case fetch_spending_of net org total_calls org_id num_ids (call_count + 1)
                  (dataframes @ [set_column ''num_id'' (JStr num_id) (DataFrame data)]) of
             (es', r) \<Rightarrow>
               ([Requests_get (spending_url org org_id num_id),
                 Progress_bar (call_count + 1) total_calls,
                 Progress_text (call_count + 1) total_calls] @ es', r)))"

fun fetch_spending ::
  "net \<Rightarrow> string \<Rightarrow> nat \<Rightarrow> string list \<Rightarrow> string list \<Rightarrow> nat \<Rightarrow> frame list
     \<Rightarrow> event list \<times> (py_error + nat \<times> frame list)" where
  "fetch_spending net org total_calls [] num_ids call_count dataframes =
     ([], Inr (call_count, dataframes))"
| "fetch_spending net org total_calls (org_id # org_ids) num_ids call_count dataframes =
     (case fetch_spending_of net org total_calls org_id num_ids call_count dataframes of
        (es, Inl e) \<Rightarrow> (es, Inl e)
      | (es, Inr (call_count', dataframes')) \<Rightarrow>
          (case fetch_spending net org total_calls org_ids num_ids call_count' dataframes' of
             (es', r) \<Rightarrow> (es @ es', r)))"

subsection \<open>The pipeline\<close>

text \<open>
  The end of \<open>extract_data\<close>, after the loops: the branch on \<^verbatim>\<open>if dataframes:\<close>, which
  is true of a non-empty list, whatever the frames in it hold. \<open>st.dataframe\<close>, \<open>to_csv\<close>
  and \<open>st.markdown\<close> are taken to succeed (Streamlit refuses a table it cannot convert,
  such as one with an integer beyond 64 bits).
\<close>

definition show_results :: "frame list \<Rightarrow> frame \<Rightarrow> event list \<times> py_error option" where
  "show_results dataframes num_id_df =
     (if dataframes \<noteq> [] then
        (case pd_concat dataframes of
           Inl e \<Rightarrow> ([], Some e)
         | Inr final_df \<Rightarrow>
             (case merge_left ''num_id'' final_df num_id_df of
                Inl e \<Rightarrow> ([], Some e)
              | Inr final_df \<Rightarrow>
                  (case select_columns (reorder_columns (columns final_df)) final_df of
                     Inl e \<Rightarrow> ([], Some e)
                   | Inr final_df \<Rightarrow> ([St_dataframe final_df, St_markdown final_df], None))))
      else ([St_write No_data_returned], None))"

text \<open>
  \<open>extract_data\<close>: the events of the run, and the fault that ended it, if one did.
\<close>

definition extract_data ::
  "net \<Rightarrow> string \<Rightarrow> string list \<Rightarrow> string list \<Rightarrow> event list \<times> py_error option" where
  "extract_data net org org_ids num_ids =
     (let api_calls = calculate_api_calls org_ids num_ids in
      if api_calls > API_CALL_LIMIT then
        ([St_write (Search_too_complex api_calls), St_write Reduce_number], None)
      else
        (let shown = [St_write (Organisation_type org),
                      St_write (Selected_organisations org_ids),
                      St_write (Selected_products num_ids),
                      St_write (Calls_needed api_calls),
                      St_empty, St_progress 0];
             total_calls = length num_ids + length org_ids * length num_ids
         in case fetch_names net total_calls num_ids 0 [] of
              (es1, Inl e) \<Rightarrow> (shown @ es1, Some e)
            | (es1, Inr (call_count, num_id_names)) \<Rightarrow>
                (case fetch_spending net org total_calls org_ids num_ids call_count [] of
                   (es2, Inl e) \<Rightarrow> (shown @ es1 @ es2, Some e)
                 | (es2, Inr (call_count', dataframes)) \<Rightarrow>
                     (case show_results dataframes (DataFrame num_id_names) of
                        (es3, fault) \<Rightarrow>
                          (shown @ es1 @ es2
                             @ [St_write Divider, St_write Results_heading] @ es3, fault)))))"

subsection \<open>The button handler\<close>

text \<open>
  Lines 165 to 174: the messages shown, and the flag \<open>error_raised\<close>.
  \<^verbatim>\<open>
  error_raised = False
  if 'denomIds' in query_components: error_raised = True; st.error(...)
  if not org_ids:                    error_raised = True; st.error(...)
  elif check_for_mixed_code_types(num_ids): st.warning(...)
  \<close>
\<close>

definition check_request ::
  "query_components \<Rightarrow> string list \<Rightarrow> string list \<Rightarrow> event list \<times> bool" where
  "check_request query_components org_ids num_ids =
     (case (if query_components ''denomIds'' \<noteq> None
            then ([St_error Denominators_not_supported], True)
            else ([], False)) of
        (shown, error_raised) \<Rightarrow>
          if org_ids = [] then (shown @ [St_error No_organisation], True)
          else if check_for_mixed_code_types num_ids
               then (shown @ [St_warning Mixed_code_types], error_raised)
               else (shown, error_raised))"

text \<open>
  The handler from the query components on: \<open>extract_data\<close> is called exactly when
  \<open>error_raised\<close> is false.
\<close>

definition handle_query :: "net \<Rightarrow> query_components \<Rightarrow> event list \<times> py_error option" where
  "handle_query net query_components =
     (case read_selection query_components of
        Inl e \<Rightarrow> ([], Some e)
      | Inr (org, org_ids, num_ids) \<Rightarrow>
          (case check_request query_components org_ids num_ids of
             (shown, error_raised) \<Rightarrow>
               if \<not> error_raised
               then (case extract_data net org org_ids num_ids of
                       (es, fault) \<Rightarrow> (shown @ es, fault))
               else (shown, None)))"

text \<open>
  The handler of the button, for the URLs that \<open>urlparse\<close> accepts: nothing happens on an
  empty URL.
\<close>

definition button_pressed :: "net \<Rightarrow> string \<Rightarrow> event list \<times> py_error option" where
  "button_pressed net url = (if url = [] then ([], None) else handle_query net (parse_url url))"

subsection \<open>Networks to run the model on\<close>

text \<open>A network that answers every request with the empty sequence.\<close>

definition empty_net :: net where
  "empty_net = \<lparr>name_reply = (\<lambda>k url. Inr (JArr [])), spending_reply = (\<lambda>k url. Inr [])\<rparr>"

text \<open>
  A network that knows no product name and answers every spending request with one row,
  its keys in the order the OpenPrescribing API sends them.
\<close>

definition sample_row :: record_object where
  "sample_row =
     [(''items'', JInt 2), (''quantity'', JInt 56), (''actual_cost'', JFloat (7 / 2)),
      (''date'', JStr ''2024-01-01''), (''row_id'', JStr ''15N''), (''row_name'', JStr ''NHS DEVON'')]"

definition sample_net :: net where
  "sample_net =
     \<lparr>name_reply = (\<lambda>k url. Inr (JArr [])), spending_reply = (\<lambda>k url. Inr [sample_row])\<rparr>"

text \<open>The same, with rows that name the cost before the item count.\<close>

definition cost_first_net :: net where
  "cost_first_net =
     \<lparr>name_reply = (\<lambda>k url. Inr (JArr [])),
      spending_reply = (\<lambda>k url. Inr [[(''actual_cost'', JFloat (7 / 2)), (''items'', JInt 2)]])\<rparr>"

section \<open>Properties\<close>

subsection \<open>The call budget\<close>

text \<open>
  C1. For lists \<open>org_ids\<close> and \<open>num_ids\<close> of lengths \<open>O\<close> and \<open>P\<close>,
  \<open>calculate_api_calls\<close> returns exactly \<open>P + O * P\<close>, and it returns 0 when both
  lists are empty.
\<close>

theorem calculate_api_calls_budget:
  "calculate_api_calls org_ids num_ids = length num_ids + length org_ids * length num_ids
   \<and> calculate_api_calls [] [] = 0"
  by (simp add: calculate_api_calls_def)

subsection \<open>The code-type check\<close>

lemma scan_codes_flags:
  "scan_codes codes v s =
     (v \<or> (\<exists>c \<in> set codes. length c = 15), s \<or> (\<exists>c \<in> set codes. length c < 15))"
  by (induction codes arbitrary: v s) auto

lemma check_for_mixed_code_types_iff:
  "check_for_mixed_code_types codes \<longleftrightarrow>
     (\<exists>c \<in> set codes. length c = 15) \<and> (\<exists>c \<in> set codes. length c < 15)"
  by (simp add: check_for_mixed_code_types_def scan_codes_flags)

text \<open>
  C8. The check returns true for every sequence that contains at least one identifier of
  length exactly 15 and at least one of length below 15; it returns false for every
  sequence whose identifiers are all of one family (all of length 15, or all shorter),
  which includes the empty sequence.
\<close>

theorem check_for_mixed_code_types_families:
  "((\<exists>c \<in> set codes. length c = 15) \<and> (\<exists>c \<in> set codes. length c < 15)
      \<longrightarrow> check_for_mixed_code_types codes = True)
   \<and> ((\<forall>c \<in> set codes. length c = 15) \<or> (\<forall>c \<in> set codes. length c < 15)
      \<longrightarrow> check_for_mixed_code_types codes = False)"
  unfolding check_for_mixed_code_types_iff by auto

theorem check_for_mixed_code_types_families_witness:
  "check_for_mixed_code_types [''0407010H0AAAAAA'', ''0407010H0''] = True
   \<and> check_for_mixed_code_types [''0407010H0AAAAAA'', ''0407010F0AAAAAA''] = False
   \<and> check_for_mixed_code_types [''0407010H0'', ''040701''] = False
   \<and> check_for_mixed_code_types [] = False"
  using check_for_mixed_code_types_families [of "[''0407010H0AAAAAA'', ''0407010H0'']"]
    check_for_mixed_code_types_families [of "[''0407010H0AAAAAA'', ''0407010F0AAAAAA'']"]
    check_for_mixed_code_types_families [of "[''0407010H0'', ''040701'']"]
    check_for_mixed_code_types_families [of "[]"]
  by simp

text \<open>
  C9. An identifier longer than 15 characters sets neither flag: whenever no identifier
  has length exactly 15, or none has length below 15, the check returns false. So a
  16-character code next to a 15-character one, or next to a 10-character one, gives
  false.
\<close>

theorem check_for_mixed_code_types_longer_codes:
  "\<not> (\<exists>c \<in> set codes. length c = 15) \<or> \<not> (\<exists>c \<in> set codes. length c < 15)
     \<Longrightarrow> check_for_mixed_code_types codes = False"
  unfolding check_for_mixed_code_types_iff by auto

theorem check_for_mixed_code_types_longer_codes_witness:
  "check_for_mixed_code_types [''0407010H0AAAAAAA'', ''0407010H0AAAAAA''] = False
   \<and> check_for_mixed_code_types [''0407010H0AAAAAAA'', ''0407010H0A''] = False"
  using check_for_mixed_code_types_longer_codes [of "[''0407010H0AAAAAAA'', ''0407010H0AAAAAA'']"]
    check_for_mixed_code_types_longer_codes [of "[''0407010H0AAAAAAA'', ''0407010H0A'']"]
  by simp

subsection \<open>The budget gate\<close>

text \<open>
  C2. Whenever the budget \<open>P + O * P\<close> exceeds 100, \<open>extract_data\<close> writes its two
  messages and nothing else: no request is issued, for a name or for spending.
\<close>

theorem extract_data_over_budget:
  "length num_ids + length org_ids * length num_ids > 100 \<Longrightarrow>
   extract_data net org org_ids num_ids =
     ([St_write (Search_too_complex (length num_ids + length org_ids * length num_ids)),
       St_write Reduce_number], None)
   \<and> filter is_request (fst (extract_data net org org_ids num_ids)) = []"
  by (simp add: extract_data_def calculate_api_calls_def API_CALL_LIMIT_def is_request_def)

theorem extract_data_over_budget_witness:
  "length (replicate 51 ''0407010H0'') + length [''15N''] * length (replicate 51 ''0407010H0'') > 100
   \<and> extract_data empty_net ''ccg'' [''15N''] (replicate 51 ''0407010H0'') =
     ([St_write (Search_too_complex 102), St_write Reduce_number], None)
   \<and> filter is_request (fst (extract_data empty_net ''ccg'' [''15N''] (replicate 51 ''0407010H0''))) = []"
  using extract_data_over_budget [of "replicate 51 ''0407010H0''" "[''15N'']" empty_net "''ccg''"]
  by (simp add: is_request_def)

subsection \<open>Runs without products\<close>

lemma fetch_spending_no_products:
  "fetch_spending net org total_calls org_ids [] call_count dataframes =
     ([], Inr (call_count, dataframes))"
  by (induction org_ids) simp_all

text \<open>
  C10. With organisations and no product, the budget is 0 and passes the gate, and the
  run issues no request, reports that no data was returned, and shows no table and no
  download link.
\<close>

theorem extract_data_no_products:
  "org_ids \<noteq> [] \<Longrightarrow>
   calculate_api_calls org_ids [] = 0
   \<and> \<not> calculate_api_calls org_ids [] > API_CALL_LIMIT
   \<and> extract_data net org org_ids [] =
     ([St_write (Organisation_type org), St_write (Selected_organisations org_ids),
       St_write (Selected_products []), St_write (Calls_needed 0), St_empty, St_progress 0,
       St_write Divider, St_write Results_heading, St_write No_data_returned], None)
   \<and> filter is_request (fst (extract_data net org org_ids [])) = []
   \<and> filter shows_table (fst (extract_data net org org_ids [])) = []"
  by (simp add: extract_data_def calculate_api_calls_def API_CALL_LIMIT_def
      fetch_spending_no_products show_results_def pd_concat_def is_request_def shows_table_def)

theorem extract_data_no_products_witness:
  "calculate_api_calls [''15N'', ''15M''] [] = 0
   \<and> \<not> calculate_api_calls [''15N'', ''15M''] [] > API_CALL_LIMIT
   \<and> extract_data sample_net ''ccg'' [''15N'', ''15M''] [] =
     ([St_write (Organisation_type ''ccg''), St_write (Selected_organisations [''15N'', ''15M'']),
       St_write (Selected_products []), St_write (Calls_needed 0), St_empty, St_progress 0,
       St_write Divider, St_write Results_heading, St_write No_data_returned], None)
   \<and> filter is_request (fst (extract_data sample_net ''ccg'' [''15N'', ''15M''] [])) = []
   \<and> filter shows_table (fst (extract_data sample_net ''ccg'' [''15N'', ''15M''] [])) = []"
  using extract_data_no_products [of "[''15N'', ''15M'']" sample_net "''ccg''"]
  by (simp add: is_request_def shows_table_def)

subsection \<open>When the no-data message appears\<close>

lemma fetch_names_no_write:
  "fetch_names net total_calls num_ids call_count num_id_names = (es, r) \<Longrightarrow> St_write m \<notin> set es"
  by (induction num_ids arbitrary: call_count num_id_names es r)
    (auto simp: fetch_name_for_num_id_def split: sum.splits prod.splits)

lemma fetch_spending_of_no_write:
  "fetch_spending_of net org total_calls org_id num_ids call_count dataframes = (es, r)
     \<Longrightarrow> St_write m \<notin> set es"
  by (induction num_ids arbitrary: call_count dataframes es r)
    (auto split: sum.splits prod.splits)

lemma fetch_spending_no_write:
  "fetch_spending net org total_calls org_ids num_ids call_count dataframes = (es, r)
     \<Longrightarrow> St_write m \<notin> set es"
  by (induction org_ids arbitrary: call_count dataframes es r)
    (auto split: sum.splits prod.splits dest: fetch_spending_of_no_write)

lemma fetch_spending_of_frames:
  "fetch_spending_of net org total_calls org_id num_ids call_count dataframes = (es, Inr (c, dfs))
     \<Longrightarrow> length dfs = length dataframes + length num_ids"
  by (induction num_ids arbitrary: call_count dataframes es)
    (auto split: sum.splits prod.splits)

lemma fetch_spending_frames:
  "fetch_spending net org total_calls org_ids num_ids call_count dataframes = (es, Inr (c, dfs))
     \<Longrightarrow> length dfs = length dataframes + length org_ids * length num_ids"
proof (induction org_ids arbitrary: call_count dataframes es)
  case Nil
  then show ?case by simp
next
  case (Cons org_id org_ids)
  then show ?case
    by (auto split: sum.splits prod.splits dest!: fetch_spending_of_frames)
qed

lemma show_results_no_data:
  "St_write No_data_returned \<in> set (fst (show_results dataframes num_id_df)) \<longleftrightarrow> dataframes = []"
  by (auto simp: show_results_def pd_concat_def Let_def split: sum.splits)

lemma extract_data_no_data_only_without_calls:
  assumes "St_write No_data_returned \<in> set (fst (extract_data net org org_ids num_ids))"
  shows "org_ids = [] \<or> num_ids = []"
proof -
  let ?total = "length num_ids + length org_ids * length num_ids"
  from assms have within: "\<not> calculate_api_calls org_ids num_ids > API_CALL_LIMIT"
    by (auto simp: extract_data_def)
  obtain es1 r1 where names: "fetch_names net ?total num_ids 0 [] = (es1, r1)"
    by (cases "fetch_names net ?total num_ids 0 []")
  have w1: "St_write No_data_returned \<notin> set es1"
    using fetch_names_no_write [OF names] .
  show ?thesis
  proof (cases r1)
    case (Inl e)
    with assms within names w1 show ?thesis
      by (auto simp: extract_data_def)
  next
    case (Inr done1)
    obtain call_count num_id_names where done1: "done1 = (call_count, num_id_names)"
      by (cases done1)
    obtain es2 r2 where spending:
      "fetch_spending net org ?total org_ids num_ids call_count [] = (es2, r2)"
      by (cases "fetch_spending net org ?total org_ids num_ids call_count []")
    have w2: "St_write No_data_returned \<notin> set es2"
      using fetch_spending_no_write [OF spending] .
    show ?thesis
    proof (cases r2)
      case (Inl e)
      with assms within names Inr done1 spending w1 w2 show ?thesis
        by (auto simp: extract_data_def)
    next
      case inr2: (Inr done2)
      obtain call_count' dataframes where done2: "done2 = (call_count', dataframes)"
        by (cases done2)
      from assms within names Inr done1 spending inr2 done2 w1 w2
      have "St_write No_data_returned \<in> set (fst (show_results dataframes (DataFrame num_id_names)))"
        by (auto simp: extract_data_def split: prod.splits)
      then have "dataframes = []"
        by (simp add: show_results_no_data)
      moreover have "length dataframes = length org_ids * length num_ids"
        using fetch_spending_frames [of net org ?total org_ids num_ids call_count "[]" es2 call_count' dataframes]
          spending inr2 done2 by simp
      ultimately show ?thesis by simp
    qed
  qed
qed

subsection \<open>Runs on concrete networks\<close>

lemmas run_defs = extract_data_def calculate_api_calls_def API_CALL_LIMIT_def
  fetch_name_for_num_id_def first_name_def show_results_def pd_concat_def DataFrame_def
  set_column_def merge_left_def suffix_duplicates_def select_columns_def reorder_columns_def
  value_columns_def move_to_end_def cell_at_def

text \<open>
  C3. The claim is that a run whose spending calls return no record at all reports
  ``no data'' and shows no table. The code tests the list of per-call frames, which holds
  one (empty) frame per call: with one organisation, one product and every reply empty,
  the run shows a table without rows and the download link, and never writes the no-data
  message.
\<close>

theorem extract_data_empty_replies:
  "extract_data empty_net ''ccg'' [''15N''] [''0407010H0''] =
     ([St_write (Organisation_type ''ccg''), St_write (Selected_organisations [''15N'']),
       St_write (Selected_products [''0407010H0'']), St_write (Calls_needed 2),
       St_empty, St_progress 0,
       Requests_get (name_url ''0407010H0''), Progress_bar 1 2, Progress_text 1 2,
       Requests_get (spending_url ''ccg'' ''15N'' ''0407010H0''),
       Progress_bar 2 2, Progress_text 2 2,
       St_write Divider, St_write Results_heading,
       St_dataframe \<lparr>columns = [''num_id'', ''name''], rows = []\<rparr>,
       St_markdown \<lparr>columns = [''num_id'', ''name''], rows = []\<rparr>], None)"
  by (simp add: run_defs empty_net_def)

text \<open>
  A product the name lookup does not know: the run does not fail, and the row tagged with
  the product carries the empty name.
\<close>

lemma extract_data_unknown_name:
  "extract_data sample_net ''ccg'' [''15N''] [''0407010H0''] =
     ([St_write (Organisation_type ''ccg''), St_write (Selected_organisations [''15N'']),
       St_write (Selected_products [''0407010H0'']), St_write (Calls_needed 2),
       St_empty, St_progress 0,
       Requests_get (name_url ''0407010H0''), Progress_bar 1 2, Progress_text 1 2,
       Requests_get (spending_url ''ccg'' ''15N'' ''0407010H0''),
       Progress_bar 2 2, Progress_text 2 2,
       St_write Divider, St_write Results_heading,
       St_dataframe
         \<lparr>columns = [''date'', ''row_id'', ''row_name'', ''num_id'', ''name'',
                     ''items'', ''quantity'', ''actual_cost''],
          rows = [[Some (JStr ''2024-01-01''), Some (JStr ''15N''), Some (JStr ''NHS DEVON''),
                   Some (JStr ''0407010H0''), Some (JStr ''''),
                   Some (JInt 2), Some (JInt 56), Some (JFloat (7 / 2))]]\<rparr>,
       St_markdown
         \<lparr>columns = [''date'', ''row_id'', ''row_name'', ''num_id'', ''name'',
                     ''items'', ''quantity'', ''actual_cost''],
          rows = [[Some (JStr ''2024-01-01''), Some (JStr ''15N''), Some (JStr ''NHS DEVON''),
                   Some (JStr ''0407010H0''), Some (JStr ''''),
                   Some (JInt 2), Some (JInt 56), Some (JFloat (7 / 2))]]\<rparr>], None)"
  by (simp add: run_defs sample_net_def sample_row_def)

text \<open>
  Rows that name the cost before the item count: the table shown has the item count
  before the cost.
\<close>

lemma extract_data_cost_first:
  "extract_data cost_first_net ''ccg'' [''15N''] [''0407010H0''] =
     ([St_write (Organisation_type ''ccg''), St_write (Selected_organisations [''15N'']),
       St_write (Selected_products [''0407010H0'']), St_write (Calls_needed 2),
       St_empty, St_progress 0,
       Requests_get (name_url ''0407010H0''), Progress_bar 1 2, Progress_text 1 2,
       Requests_get (spending_url ''ccg'' ''15N'' ''0407010H0''),
       Progress_bar 2 2, Progress_text 2 2,
       St_write Divider, St_write Results_heading,
       St_dataframe
         \<lparr>columns = [''num_id'', ''name'', ''items'', ''actual_cost''],
          rows = [[Some (JStr ''0407010H0''), Some (JStr ''''), Some (JInt 2),
                   Some (JFloat (7 / 2))]]\<rparr>,
       St_markdown
         \<lparr>columns = [''num_id'', ''name'', ''items'', ''actual_cost''],
          rows = [[Some (JStr ''0407010H0''), Some (JStr ''''), Some (JInt 2),
                   Some (JFloat (7 / 2))]]\<rparr>], None)"
  by (simp add: run_defs cost_first_net_def)

subsection \<open>The column reordering\<close>

lemma move_to_end_distinct:
  "distinct cols \<Longrightarrow>
   move_to_end col cols = filter (\<lambda>c. c \<noteq> col) cols @ (if col \<in> set cols then [col] else [])"
  by (induction cols) (auto simp: move_to_end_def)

lemma foldl_move_to_end:
  "distinct cols \<Longrightarrow> distinct vs \<Longrightarrow>
   foldl (\<lambda>cols col. move_to_end col cols) cols vs =
     filter (\<lambda>c. c \<notin> set vs) cols @ filter (\<lambda>c. c \<in> set cols) vs"
proof (induction vs rule: rev_induct)
  case Nil
  then show ?case by simp
next
  case (snoc v vs)
  let ?kept = "filter (\<lambda>c. c \<notin> set vs) cols"
  let ?moved = "filter (\<lambda>c. c \<in> set cols) vs"
  from snoc have before: "foldl (\<lambda>cols col. move_to_end col cols) cols vs = ?kept @ ?moved"
    and fresh: "v \<notin> set vs" by simp_all
  have d: "distinct (?kept @ ?moved)"
    using snoc.prems by auto
  have moved_same: "filter (\<lambda>c. c \<noteq> v) ?moved = ?moved"
    by (rule filter_True) (use fresh in auto)
  have kept_less: "filter (\<lambda>c. c \<noteq> v) ?kept = filter (\<lambda>c. c \<notin> set (vs @ [v])) cols"
    by (auto intro!: filter_cong)
  have present: "v \<in> set (?kept @ ?moved) \<longleftrightarrow> v \<in> set cols"
    using fresh by auto
  have "foldl (\<lambda>cols col. move_to_end col cols) cols (vs @ [v]) = move_to_end v (?kept @ ?moved)"
    by (simp add: before)
  also have "\<dots> = filter (\<lambda>c. c \<noteq> v) (?kept @ ?moved) @ (if v \<in> set cols then [v] else [])"
    using move_to_end_distinct [OF d, of v] present by simp
  also have "\<dots> = filter (\<lambda>c. c \<notin> set (vs @ [v])) cols @ filter (\<lambda>c. c \<in> set cols) (vs @ [v])"
    using moved_same kept_less by simp
  finally show ?case .
qed

text \<open>
  The columns that are not moved keep their relative order, whatever the labels are.
\<close>

lemma filter_remove1_other: "\<not> P col \<Longrightarrow> filter P (remove1 col cols) = filter P cols"
  by (induction cols) auto

lemma filter_move_to_end_other: "\<not> P col \<Longrightarrow> filter P (move_to_end col cols) = filter P cols"
  by (simp add: move_to_end_def filter_remove1_other)

lemma reorder_columns_others:
  "filter (\<lambda>c. c \<notin> set value_columns) (reorder_columns cols) =
     filter (\<lambda>c. c \<notin> set value_columns) cols"
  by (simp add: reorder_columns_def value_columns_def filter_move_to_end_other)



text \<open>
  The table that is shown: \<open>final_df[cols]\<close> has exactly the labels \<open>cols\<close> when the labels of
  \<open>final_df\<close> are distinct, so its columns are the reordered ones.
\<close>

lemma positions_of_label:
  "map (\<lambda>i. xs ! i) (filter (\<lambda>i. xs ! i = l) [0..<length xs]) = filter (\<lambda>x. x = l) xs"
proof -
  have "filter (\<lambda>x. x = l) (map (\<lambda>i. xs ! i) [0..<length xs])
          = map (\<lambda>i. xs ! i) (filter (\<lambda>i. xs ! i = l) [0..<length xs])"
    by (simp add: filter_map o_def)
  then show ?thesis by (simp add: map_nth)
qed

lemma filter_label_distinct: "distinct xs \<Longrightarrow> l \<in> set xs \<Longrightarrow> filter (\<lambda>x. x = l) xs = [l]"
  by (induction xs) (auto simp: filter_empty_conv)

lemma concat_singletons: "set cols \<subseteq> set xs \<Longrightarrow> distinct xs \<Longrightarrow> concat (map (\<lambda>l. filter (\<lambda>x. x = l) xs) cols) = cols"
  by (induction cols) (auto simp: filter_label_distinct)

lemma select_columns_labels:
  assumes "distinct (columns df)" and "select_columns cols df = Inr shown"
  shows "columns shown = cols"
proof -
  from assms(2) have sub: "set cols \<subseteq> set (columns df)"
    by (auto simp: select_columns_def split: if_splits)
  with assms(2) have "columns shown =
      map (\<lambda>i. columns df ! i)
        (concat (map (\<lambda>l. filter (\<lambda>i. columns df ! i = l) [0..<length (columns df)]) cols))"
    by (auto simp: select_columns_def Let_def)
  also have "\<dots> = concat (map (\<lambda>l. filter (\<lambda>x. x = l) (columns df)) cols)"
    by (simp add: map_concat o_def positions_of_label)
  also have "\<dots> = cols"
    using sub assms(1) by (rule concat_singletons)
  finally show ?thesis .
qed

lemma shown_columns:
  assumes "distinct (columns df)"
    and "select_columns (reorder_columns (columns df)) df = Inr shown"
  shows "columns shown =
     filter (\<lambda>c. c \<notin> set value_columns) (columns df)
       @ filter (\<lambda>c. c \<in> set (columns df)) value_columns"
proof -
  have "columns shown = reorder_columns (columns df)"
    using assms by (rule select_columns_labels)
  also have "\<dots> = filter (\<lambda>c. c \<notin> set value_columns) (columns df)
       @ filter (\<lambda>c. c \<in> set (columns df)) value_columns"
    unfolding reorder_columns_def
    by (rule foldl_move_to_end) (simp_all add: assms(1) value_columns_def)
  finally show ?thesis .
qed

text \<open>
  C4, as the claim has it, fails: the moved columns do not keep their original relative
  order. A table whose columns are \<open>actual_cost, items, num_id, name\<close> comes out as
  \<open>num_id, name, items, actual_cost\<close>: the cost was before the item count and is now
  after it.
\<close>

theorem reorder_columns_swaps_moved:
  "reorder_columns [''actual_cost'', ''items'', ''num_id'', ''name'']
     = [''num_id'', ''name'', ''items'', ''actual_cost'']"
  by (simp add: reorder_columns_def value_columns_def move_to_end_def)

text \<open>
  C4, amended. For every table with distinct column labels, the reordering puts those of
  \<open>items\<close>, \<open>quantity\<close>, \<open>actual_cost\<close> that are present last, in this fixed order, after
  all the other columns in their original relative order. (So the moved columns keep
  their original relative order exactly when it was this order already.)
\<close>

theorem reorder_columns_distinct:
  "distinct cols \<Longrightarrow>
   reorder_columns cols =
     filter (\<lambda>c. c \<notin> set [''items'', ''quantity'', ''actual_cost'']) cols
       @ filter (\<lambda>c. c \<in> set cols) [''items'', ''quantity'', ''actual_cost'']"
  unfolding reorder_columns_def value_columns_def
  by (rule foldl_move_to_end) simp_all

theorem reorder_columns_distinct_witness:
  "distinct [''org'', ''num_id'', ''items'', ''name'', ''quantity'', ''actual_cost'']
   \<and> reorder_columns [''org'', ''num_id'', ''items'', ''name'', ''quantity'', ''actual_cost'']
       = [''org'', ''num_id'', ''name'', ''items'', ''quantity'', ''actual_cost'']"
  using reorder_columns_distinct
          [of "[''org'', ''num_id'', ''items'', ''name'', ''quantity'', ''actual_cost'']"]
  by simp

subsection \<open>Decoding\<close>

lemmas decode_defs = read_selection_def read_org_def read_ids_def first_value_def
  parse_url_def parse_qs_def parse_qsl_def url_fragment_def split_first_def
  is_c0_or_space_def is_unsafe_url_byte_def plus_to_space_def

text \<open>
  C6. Decoding \<open>#org=ccg&orgIds=A,B&numIds=X\<close> with \<open>parse_url\<close> and then taking the first
  value of each key and splitting the identifiers at the commas gives \<open>org = "ccg"\<close>,
  \<open>org_ids = ["A", "B"]\<close> and \<open>num_ids = ["X"]\<close>.
\<close>

theorem parse_url_example:
  "read_selection (parse_url ''#org=ccg&orgIds=A,B&numIds=X'')
     = Inr (''ccg'', [''A'', ''B''], [''X''])"
  by (simp add: decode_defs)

text \<open>
  \<open>parse_qs\<close> never maps a key to an empty list, so the \<open>[0]\<close> of the handler cannot
  fail on what \<open>parse_url\<close> returns; and \<open>org_ids\<close> is empty exactly when the URL has no
  \<open>orgIds\<close>.
\<close>

lemma parse_qs_pairs_values:
  "(\<And>k vs. parsed k = Some vs \<Longrightarrow> vs \<noteq> []) \<Longrightarrow>
   parse_qs_pairs pairs parsed k = Some vs \<Longrightarrow> vs \<noteq> []"
proof (induction pairs arbitrary: parsed)
  case Nil
  then show ?case by simp
next
  case (Cons p pairs)
  obtain name val where p: "p = (name, val)" by (cases p)
  let ?next = "case parsed name of Some vals \<Rightarrow> parsed(name \<mapsto> vals @ [val])
                 | None \<Rightarrow> parsed(name \<mapsto> [val])"
  show ?case
  proof (rule Cons.IH [of ?next])
    fix k' vs'
    assume "?next k' = Some vs'"
    then show "vs' \<noteq> []"
      using Cons.prems(1) by (auto split: option.splits if_splits)
  next
    show "parse_qs_pairs pairs ?next k = Some vs"
      using Cons.prems(2) p by simp
  qed
qed

lemma parse_url_values: "parse_url url k = Some vs \<Longrightarrow> vs \<noteq> []"
  unfolding parse_url_def parse_qs_def
  by (rule parse_qs_pairs_values [of Map.empty]) simp_all

lemma split_on_nonempty: "split_on sep s \<noteq> []"
  by (induction s) (auto split: list.splits)

lemma read_selection_parse_url:
  "\<exists>org org_ids num_ids. read_selection (parse_url url) = Inr (org, org_ids, num_ids)"
  by (auto simp: read_selection_def read_org_def read_ids_def first_value_def
      split: option.splits list.splits dest: parse_url_values)

lemma org_ids_empty_iff:
  "read_selection (parse_url url) = Inr (org, org_ids, num_ids) \<Longrightarrow>
   org_ids = [] \<longleftrightarrow> parse_url url ''orgIds'' = None"
  by (auto simp: read_selection_def read_org_def read_ids_def first_value_def split_on_nonempty
      split: option.splits list.splits sum.splits dest: parse_url_values)

subsection \<open>Requests that are turned away\<close>

text \<open>
  \<open>extract_data\<close> begins with an \<open>st.write\<close> on either side of its gate, so a run of the
  handler without any \<open>st.write\<close> did not call it.
\<close>

lemma extract_data_writes_first:
  "\<exists>m es. fst (extract_data net org org_ids num_ids) = St_write m # es"
  by (auto simp: extract_data_def Let_def split: prod.splits sum.splits)

text \<open>
  C5. When the query components hold the key \<open>denomIds\<close>, or \<open>org_ids\<close> is empty,
  \<open>error_raised\<close> is set, the user is shown an error, and the run consists of the error
  (and possibly the warning) alone: \<open>extract_data\<close> is not called, whatever \<open>num_ids\<close> is.
\<close>

theorem handle_query_rejects:
  assumes "read_selection query_components = Inr (org, org_ids, num_ids)"
    and "query_components ''denomIds'' \<noteq> None \<or> org_ids = []"
  shows "snd (check_request query_components org_ids num_ids) = True
    \<and> handle_query net query_components =
       ((if query_components ''denomIds'' \<noteq> None then [St_error Denominators_not_supported] else [])
        @ (if org_ids = [] then [St_error No_organisation]
           else if check_for_mixed_code_types num_ids then [St_warning Mixed_code_types] else []),
        None)"
  using assms by (auto simp: handle_query_def check_request_def)

theorem handle_query_rejects_witness:
  "handle_query sample_net
      (parse_url ''https://openprescribing.net/analyse/#org=CCG&orgIds=15N&numIds=0407010H0&denomIds=4.7'')
     = ([St_error Denominators_not_supported], None)
   \<and> handle_query sample_net
      (parse_url ''https://openprescribing.net/analyse/#org=CCG&numIds=0407010H0,0407010H0AAAAAA'')
     = ([St_error No_organisation], None)"
proof -
  let ?a = "parse_url ''https://openprescribing.net/analyse/#org=CCG&orgIds=15N&numIds=0407010H0&denomIds=4.7''"
  let ?b = "parse_url ''https://openprescribing.net/analyse/#org=CCG&numIds=0407010H0,0407010H0AAAAAA''"
  have a: "read_selection ?a = Inr (''CCG'', [''15N''], [''0407010H0''])"
    by (simp add: decode_defs)
  have a': "?a ''denomIds'' \<noteq> None \<or> [''15N''] = []"
    by (simp add: decode_defs)
  have b: "read_selection ?b = Inr (''CCG'', [], [''0407010H0'', ''0407010H0AAAAAA''])"
    by (simp add: decode_defs)
  have b': "?b ''denomIds'' \<noteq> None \<or> ([]::string list) = []"
    by simp
  have no_denominator: "?b ''denomIds'' = None"
    by (simp add: decode_defs)
  have mixed: "\<not> check_for_mixed_code_types [''0407010H0'']"
    by (simp add: check_for_mixed_code_types_def)
  from handle_query_rejects [OF a a', of sample_net] handle_query_rejects [OF b b', of sample_net]
    a' no_denominator mixed
  show ?thesis by simp
qed

text \<open>
  The same from the URL on, for the URLs that \<open>urlparse\<close> accepts: there reading the
  selection cannot fail.
\<close>

lemma button_pressed_rejects:
  assumes "url \<noteq> []"
    and "parse_url url ''denomIds'' \<noteq> None \<or> parse_url url ''orgIds'' = None"
  shows "\<exists>shown. button_pressed net url = (shown, None)
           \<and> shown \<noteq> [] \<and> list_all (\<lambda>e. e \<in> {St_error Denominators_not_supported, St_error No_organisation, St_warning Mixed_code_types}) shown
           \<and> (St_error Denominators_not_supported \<in> set shown \<or> St_error No_organisation \<in> set shown)"
proof -
  obtain org org_ids num_ids where
    sel: "read_selection (parse_url url) = Inr (org, org_ids, num_ids)"
    using read_selection_parse_url by blast
  have "parse_url url ''denomIds'' \<noteq> None \<or> org_ids = []"
    using assms(2) org_ids_empty_iff [OF sel] by blast
  with sel assms(1) show ?thesis
    by (auto simp: button_pressed_def handle_query_def check_request_def)
qed

section \<open>The rows of the table that is shown\<close>

text \<open>
  What follows traces a row of the table from the replies to the screen: the frames the
  spending loop collects, their concatenation, the join with the name records, and the
  selection of the reordered columns.
\<close>

subsection \<open>Labels\<close>





subsection \<open>Cells\<close>

















subsection \<open>The join with the name records\<close>






subsection \<open>Selecting columns keeps the cells\<close>







subsection \<open>The table of a run\<close>









subsection \<open>Runs that complete\<close>

















subsection \<open>The name lookup\<close>



end
